theory Spec2Isabelle
  imports Main
begin

section \<open>Values, completions, effects\<close>

text \<open>
  The value model of the partial evaluator: a value is either concrete (fully known) or
  abstract (symbolic). \<open>EmptyValue\<close> is the "no value" marker of the language;
  \<open>UndefinedValue\<close> is \<open>realm.intrinsics.undefined\<close>.
\<close>

datatype concrete =
  UndefinedValue | EmptyValue | NullValue | BooleanValue bool | NumberValue int | StringValue string

datatype val = ConcreteValue concrete | AbstractValue abstract
and abstract = Symbolic string | Conditional abstract val val

definition intrinsics_undefined :: val where
  "intrinsics_undefined = ConcreteValue UndefinedValue"

definition intrinsics_empty :: val where
  "intrinsics_empty = ConcreteValue EmptyValue"

datatype completion_type = Break | Continue | Return | Throw

text \<open>An abrupt completion: its kind, its value and its optional target label.\<close>

datatype abrupt = AbruptCompletion completion_type val "string option"

datatype instruction = Emit string | Branch abstract "instruction list" "instruction list"

type_synonym generator = "instruction list"
type_synonym bindings = "(string \<times> val) list"
type_synonym property_bindings = "((nat \<times> string) \<times> val) list"
type_synonym created_objects = "nat list"

text \<open>
  What an evaluation hands back in JavaScript: a \<open>Value\<close>, a \<open>Reference\<close>, an
  \<open>AbruptCompletion\<close> object, or a \<open>PossiblyNormalCompletion\<close> (normal value, the pending
  abrupt branch with its effects, and the guard: the condition with the truth value that
  selects the normal value). The evaluator tells them apart with \<open>instanceof\<close>.
\<close>

datatype result =
    is_Value: Value val
  | is_Reference: Reference string
  | is_Abrupt: Abrupt abrupt
  | is_PossiblyNormal: PossiblyNormalCompletion val
      "abrupt \<times> generator \<times> bindings \<times> property_bindings \<times> created_objects"
      "abstract \<times> bool"

text \<open>Effects: the array \<open>[completion, generator, bindings, properties, createdObjects]\<close>.\<close>

datatype effects =
  Effects (completion: result) (residualInstructions: generator) (bindingDeltas: bindings)
    (propertyDeltas: property_bindings) (createdObjects: created_objects)

text \<open>
  What a JavaScript call can throw here: an abrupt completion (the control-flow transport),
  the \<open>InfeasiblePathError\<close>, a failed \<open>invariant(...)\<close> (tagged with the source line of the
  failed assertion), or any other error.
\<close>

datatype thrown =
    Thrown abrupt
  | InfeasiblePathError
  | InvariantViolation nat
  | FatalError string

section \<open>The realm, the calls to collaborators\<close>

text \<open>
  The realm holds the path-condition stack and the rest of the real state (bindings, heap,
  output stream, saved completion), which only the collaborators read and write.
\<close>

record 'w realm =
  pathConditions :: "(abstract \<times> bool) list"
  world :: 'w

text \<open>The syntax tree of an if statement; the nodes themselves are opaque.\<close>

record 'n if_statement =
  test :: 'n
  consequent :: 'n
  alternate :: "'n option"

text \<open>
  Every call that \<open>IfStatement.js\<close> makes to code outside the file is recorded, in order,
  with the arguments that matter.
\<close>

datatype 'n call =
    Call_evaluate 'n
  | Call_evaluateCompletion 'n
  | Call_GetConditionValue
  | Call_mightNotBeTrue
  | Call_mightNotBeFalse
  | Call_UpdateEmpty result
  | Call_withCondition abstract
  | Call_withInverseCondition abstract
  | Call_evaluateNodeForEffects 'n
  | Call_construct_empty_effects
  | Call_joinEffects abstract effects effects
  | Call_composeWithSavedCompletion result
  | Call_applyEffects effects

type_synonym ('w, 'a) action = "'w realm \<Rightarrow> (thrown + 'a) \<times> 'w realm"

type_synonym ('n, 'w, 'a) traced =
  "'w realm \<times> 'n call list \<Rightarrow> (thrown + 'a) \<times> 'w realm \<times> 'n call list"

text \<open>
  The methods of \<open>env\<close>, \<open>realm\<close> and the singletons \<open>Environment\<close>, \<open>To\<close>, \<open>Join\<close> that
  the file imports: their code is outside the file, so they are parameters. Each may
  change the realm and may throw.
\<close>

record ('n, 'w) collaborators =
  env_evaluate :: "'n \<Rightarrow> bool \<Rightarrow> ('w, result) action"
  env_evaluateCompletion :: "'n \<Rightarrow> bool \<Rightarrow> ('w, result) action"
  GetConditionValue :: "result \<Rightarrow> ('w, val) action"
  ToBoolean :: "concrete \<Rightarrow> bool"
  mightNotBeTrue :: "abstract \<Rightarrow> ('w, bool) action"
  mightNotBeFalse :: "abstract \<Rightarrow> ('w, bool) action"
  evaluateNodeForEffects :: "'n \<Rightarrow> bool \<Rightarrow> ('w, effects) action"
  construct_empty_effects :: "'w realm \<Rightarrow> effects"
  joinEffects :: "abstract \<Rightarrow> effects \<Rightarrow> effects \<Rightarrow> ('w, effects) action"
  composeWithSavedCompletion :: "result \<Rightarrow> ('w, result) action"
  applyEffects :: "effects \<Rightarrow> ('w, unit) action"

definition return_value :: "'a \<Rightarrow> ('n, 'w, 'a) traced" where
  "return_value x = (\<lambda>st. (Inr x, st))"

definition throw :: "thrown \<Rightarrow> ('n, 'w, 'a) traced" where
  "throw e = (\<lambda>st. (Inl e, st))"

text \<open>Sequencing: a throw of the first computation skips the rest.\<close>

definition and_then ::
  "('n, 'w, 'a) traced \<Rightarrow> ('a \<Rightarrow> ('n, 'w, 'b) traced) \<Rightarrow> ('n, 'w, 'b) traced" where
  "and_then m f = (\<lambda>st. case m st of (Inl e, st') \<Rightarrow> (Inl e, st') | (Inr x, st') \<Rightarrow> f x st')"

text \<open>
  \<^verbatim>\<open>try { x = m } catch (e) { handler }\<close> followed by the rest of the function: the
  handler runs on what the body threw, in the state the body left; it either returns from
  the function or throws.
\<close>

definition try_catch ::
  "('n, 'w, 'a) traced \<Rightarrow> (thrown \<Rightarrow> ('n, 'w, 'b) traced) \<Rightarrow> ('a \<Rightarrow> ('n, 'w, 'b) traced) \<Rightarrow>
     ('n, 'w, 'b) traced" where
  "try_catch m handler rest =
     (\<lambda>st. case m st of (Inl e, st') \<Rightarrow> handler e st' | (Inr x, st') \<Rightarrow> rest x st')"

text \<open>A call to a collaborator: it runs on the realm and is appended to the record of calls.\<close>

definition invoke :: "'n call \<Rightarrow> ('w, 'a) action \<Rightarrow> ('n, 'w, 'a) traced" where
  "invoke ev f = (\<lambda>(s, t). case f s of (r, s') \<Rightarrow> (r, s', t @ [ev]))"

section \<open>UpdateEmpty and the scoped path conditions\<close>

text \<open>
  Modelled from the spec: \<open>UpdateEmpty\<close> of \<open>methods/index.js\<close>, imported on line 19;
  its code is outside \<open>IfStatement.js\<close>. Section 4.6: if the completion's value is the
  "no value" marker, replace it with the default value without changing the completion's
  kind or target label; otherwise return the completion unchanged.
\<close>

fun UpdateEmpty :: "result \<Rightarrow> val \<Rightarrow> result" where
  "UpdateEmpty (Value v) d = (if v = intrinsics_empty then Value d else Value v)"
| "UpdateEmpty (Abrupt (AbruptCompletion k v target)) d =
     (if v = intrinsics_empty then Abrupt (AbruptCompletion k d target)
      else Abrupt (AbruptCompletion k v target))"
| "UpdateEmpty (PossiblyNormalCompletion v pending guard) d =
     (if v = intrinsics_empty then PossiblyNormalCompletion d pending guard
      else PossiblyNormalCompletion v pending guard)"
| "UpdateEmpty (Reference r) d = Reference r"

text \<open>
  Modelled from the spec: \<open>Path.withCondition\<close> and \<open>Path.withInverseCondition\<close> of
  \<open>singletons.js\<close>, imported on line 22; their code is outside \<open>IfStatement.js\<close>.
  Section 4.2: push (condition, truth) before invoking the thunk and pop it
  unconditionally before returning control to the caller, on normal return and on every
  throw.
\<close>

definition pushPathCondition :: "abstract \<Rightarrow> bool \<Rightarrow> 'w realm \<Rightarrow> 'w realm" where
  "pushPathCondition cond truth s = s\<lparr>pathConditions := (cond, truth) # pathConditions s\<rparr>"

definition popPathCondition :: "'w realm \<Rightarrow> 'w realm" where
  "popPathCondition s = s\<lparr>pathConditions := tl (pathConditions s)\<rparr>"

definition withAssumption ::
  "abstract \<Rightarrow> bool \<Rightarrow> ('n, 'w, 'a) traced \<Rightarrow> ('n, 'w, 'a) traced" where
  "withAssumption cond truth thunk =
     (\<lambda>(s, t). case thunk (pushPathCondition cond truth s, t) of
        (r, s', t') \<Rightarrow> (r, popPathCondition s', t'))"

definition withCondition :: "abstract \<Rightarrow> ('n, 'w, 'a) traced \<Rightarrow> ('n, 'w, 'a) traced" where
  "withCondition cond thunk =
     (\<lambda>(s, t). withAssumption cond True thunk (s, t @ [Call_withCondition cond]))"

definition withInverseCondition :: "abstract \<Rightarrow> ('n, 'w, 'a) traced \<Rightarrow> ('n, 'w, 'a) traced" where
  "withInverseCondition cond thunk =
     (\<lambda>(s, t). withAssumption cond False thunk (s, t @ [Call_withInverseCondition cond]))"

section \<open>IfStatement.js\<close>

text \<open>
  The block that ends every direct path (lines 45-51, 57-63, 68-74, 104-110, 123-129):
  \<^verbatim>\<open>
    invariant(!(stmtCompletion instanceof Reference));
    stmtCompletion = UpdateEmpty(realm, stmtCompletion, realm.intrinsics.undefined);
    if (stmtCompletion instanceof AbruptCompletion) { throw stmtCompletion; }
    invariant(stmtCompletion instanceof Value);
    return stmtCompletion;
  \<close>
  The two numbers are the source lines of the two assertions.
\<close>

definition return_or_throw :: "nat \<Rightarrow> result \<Rightarrow> ('n, 'w, val) traced" where
  "return_or_throw line stmtCompletion =
     (case stmtCompletion of
        Abrupt a \<Rightarrow> throw (Thrown a)
      | Value v \<Rightarrow> return_value v
      | _ \<Rightarrow> throw (InvariantViolation line))"

definition update_and_complete :: "nat \<Rightarrow> nat \<Rightarrow> result \<Rightarrow> ('n, 'w, val) traced" where
  "update_and_complete line1 line2 stmtCompletion =
     (case stmtCompletion of
        Reference r \<Rightarrow> throw (InvariantViolation line1)
      | _ \<Rightarrow>
        and_then
          (invoke (Call_UpdateEmpty stmtCompletion)
             (\<lambda>s. (Inr (UpdateEmpty stmtCompletion intrinsics_undefined), s)))
          (return_or_throw line2))"

text \<open>\<open>evaluateWithAbstractConditional\<close>, lines 81-158.\<close>

definition evaluateWithAbstractConditional ::
  "('n, 'w) collaborators \<Rightarrow> abstract \<Rightarrow> 'n \<Rightarrow> 'n option \<Rightarrow> bool \<Rightarrow> ('n, 'w, val) traced" where
  "evaluateWithAbstractConditional c condValue cons alt strictCode =
     try_catch
       (withCondition condValue
          (invoke (Call_evaluateNodeForEffects cons) (evaluateNodeForEffects c cons strictCode)))
       (\<lambda>e. if e = InfeasiblePathError then
              and_then
                (case alt of
                   Some a \<Rightarrow>
                     invoke (Call_evaluateCompletion a) (env_evaluateCompletion c a strictCode)
                 | None \<Rightarrow> return_value (Value intrinsics_undefined))
                (update_and_complete 104 109)
            else throw e)
       (\<lambda>effects1.
          try_catch
            (withInverseCondition condValue
               (case alt of
                  Some a \<Rightarrow>
                    invoke (Call_evaluateNodeForEffects a) (evaluateNodeForEffects c a strictCode)
                | None \<Rightarrow>
                    invoke Call_construct_empty_effects
                      (\<lambda>s. (Inr (construct_empty_effects c s), s))))
            (\<lambda>e. if e = InfeasiblePathError then
                   and_then (invoke (Call_evaluate cons) (env_evaluate c cons strictCode))
                     (update_and_complete 123 128)
                 else throw e)
            (\<lambda>effects2.
               and_then
                 (invoke (Call_joinEffects condValue effects1 effects2)
                    (joinEffects c condValue effects1 effects2))
                 (\<lambda>joinedEffects.
                    and_then
                      (if is_PossiblyNormal (completion joinedEffects) then
                         invoke (Call_composeWithSavedCompletion (completion joinedEffects))
                           (composeWithSavedCompletion c (completion joinedEffects))
                       else return_value (completion joinedEffects))
                      (\<lambda>composed.
                         and_then
                           (invoke (Call_applyEffects joinedEffects) (applyEffects c joinedEffects))
                           (\<lambda>u. return_or_throw 156 composed)))))"

text \<open>\<open>evaluate\<close>, lines 24-79.\<close>

definition evaluate ::
  "('n, 'w) collaborators \<Rightarrow> 'n if_statement \<Rightarrow> bool \<Rightarrow> ('n, 'w, val) traced" where
  "evaluate c ast strictCode =
     and_then (invoke (Call_evaluate (test ast)) (env_evaluate c (test ast) strictCode))
       (\<lambda>exprRef.
     and_then (invoke Call_GetConditionValue (GetConditionValue c exprRef))
       (\<lambda>exprValue.
          case exprValue of
            ConcreteValue cv \<Rightarrow>
              and_then
                (if ToBoolean c cv then
                   invoke (Call_evaluateCompletion (consequent ast))
                     (env_evaluateCompletion c (consequent ast) strictCode)
                 else
                   (case alternate ast of
                      Some a \<Rightarrow>
                        invoke (Call_evaluateCompletion a) (env_evaluateCompletion c a strictCode)
                    | None \<Rightarrow> return_value (Value intrinsics_undefined)))
                (update_and_complete 45 50)
          | AbstractValue av \<Rightarrow>
              and_then (invoke Call_mightNotBeTrue (mightNotBeTrue c av))
                (\<lambda>mnbt.
                   if \<not> mnbt then
                     and_then
                       (invoke (Call_evaluate (consequent ast))
                          (env_evaluate c (consequent ast) strictCode))
                       (update_and_complete 57 62)
                   else
                     and_then (invoke Call_mightNotBeFalse (mightNotBeFalse c av))
                       (\<lambda>mnbf.
                          if \<not> mnbf then
                            and_then
                              (case alternate ast of
                                 Some a \<Rightarrow>
                                   invoke (Call_evaluate a) (env_evaluate c a strictCode)
                               | None \<Rightarrow> return_value (Value intrinsics_undefined))
                              (update_and_complete 68 73)
                          else
                            evaluateWithAbstractConditional c av (consequent ast)
                              (alternate ast) strictCode))))"

section \<open>The join of two effects\<close>

text \<open>
  Modelled from the spec: \<open>Join.joinEffects\<close> of \<open>singletons.js\<close>, imported on line 22;
  its code is outside \<open>IfStatement.js\<close>. Section 4.4: the joined completion is a
  ternary merge of two normal values, a
  \<open>PossiblyNormalCompletion\<close> when one side is abrupt and the other normal (the normal
  value guarded by the condition that selects it, the abrupt side's effects retained as
  the pending branch), an abrupt completion with a ternary-merged value when both sides
  are abrupt of the same kind and target; for two abrupt completions of different kinds or
  targets the join cannot produce one completion. The residual instructions are a single
  conditional branch guarded by the condition. A binding or property delta is the union of
  the keys touched by either side, each with "if condition then valueTrue else valueFalse",
  where an untouched side contributes the original (pre-branch) value. Created objects
  are the union.
\<close>

definition conditional :: "abstract \<Rightarrow> val \<Rightarrow> val \<Rightarrow> val" where
  "conditional c x y = AbstractValue (Conditional c x y)"

fun join_completions :: "abstract \<Rightarrow> effects \<Rightarrow> effects \<Rightarrow> result option" where
  "join_completions c (Effects (Value v1) g1 b1 p1 o1) (Effects (Value v2) g2 b2 p2 o2) =
     Some (Value (conditional c v1 v2))"
| "join_completions c (Effects (Value v1) g1 b1 p1 o1) (Effects (Abrupt a2) g2 b2 p2 o2) =
     Some (PossiblyNormalCompletion v1 (a2, g2, b2, p2, o2) (c, True))"
| "join_completions c (Effects (Abrupt a1) g1 b1 p1 o1) (Effects (Value v2) g2 b2 p2 o2) =
     Some (PossiblyNormalCompletion v2 (a1, g1, b1, p1, o1) (c, False))"
| "join_completions c (Effects (Abrupt (AbruptCompletion k1 v1 t1)) g1 b1 p1 o1)
       (Effects (Abrupt (AbruptCompletion k2 v2 t2)) g2 b2 p2 o2) =
     (if k1 = k2 \<and> t1 = t2 then Some (Abrupt (AbruptCompletion k1 (conditional c v1 v2) t1))
      else None)"
| "join_completions c e1 e2 = None"

definition lookup_delta :: "('k \<Rightarrow> val) \<Rightarrow> ('k \<times> val) list \<Rightarrow> 'k \<Rightarrow> val" where
  "lookup_delta original d k = (case map_of d k of Some v \<Rightarrow> v | None \<Rightarrow> original k)"

definition join_deltas ::
  "abstract \<Rightarrow> ('k \<Rightarrow> val) \<Rightarrow> ('k \<times> val) list \<Rightarrow> ('k \<times> val) list \<Rightarrow> ('k \<times> val) list" where
  "join_deltas c original d1 d2 =
     map (\<lambda>k. (k, conditional c (lookup_delta original d1 k) (lookup_delta original d2 k)))
       (remdups (map fst d1 @ map fst d2))"

definition join_effects ::
  "abstract \<Rightarrow> (string \<Rightarrow> val) \<Rightarrow> (nat \<times> string \<Rightarrow> val) \<Rightarrow> effects \<Rightarrow> effects \<Rightarrow> effects option" where
  "join_effects c original_binding original_property e1 e2 =
     map_option
       (\<lambda>r. Effects r [Branch c (residualInstructions e1) (residualInstructions e2)]
              (join_deltas c original_binding (bindingDeltas e1) (bindingDeltas e2))
              (join_deltas c original_property (propertyDeltas e1) (propertyDeltas e2))
              (remdups (createdObjects e1 @ createdObjects e2)))
       (join_completions c e1 e2)"

text \<open>
  Modelled from the spec: the specialization of the join correctness law (section 8),
  which the spec names and does not define.
  Specializing to a truth value of the condition resolves what the join built on that
  condition: a ternary value "if condition then x else y" becomes \<open>x\<close> or \<open>y\<close>, a
  \<open>PossiblyNormalCompletion\<close> guarded by the condition becomes its normal value or its
  pending abrupt completion, a conditional branch instruction becomes the instructions of
  one arm. Values, completions and instructions built on other conditions stay.
\<close>

definition specialize_value :: "abstract \<Rightarrow> bool \<Rightarrow> val \<Rightarrow> val" where
  "specialize_value c b v =
     (case v of
        AbstractValue (Conditional c' x y) \<Rightarrow> if c' = c then (if b then x else y) else v
      | _ \<Rightarrow> v)"

fun specialize_completion :: "abstract \<Rightarrow> bool \<Rightarrow> result \<Rightarrow> result" where
  "specialize_completion c b (Value v) = Value (specialize_value c b v)"
| "specialize_completion c b (Abrupt (AbruptCompletion k v t)) =
     Abrupt (AbruptCompletion k (specialize_value c b v) t)"
| "specialize_completion c b (PossiblyNormalCompletion v (a, d) (c', truth)) =
     (if c' = c then (if b = truth then Value v else Abrupt a)
      else PossiblyNormalCompletion v (a, d) (c', truth))"
| "specialize_completion c b (Reference r) = Reference r"

fun specialize_instruction :: "abstract \<Rightarrow> bool \<Rightarrow> instruction \<Rightarrow> instruction list" where
  "specialize_instruction c b (Branch c' g1 g2) =
     (if c' = c then (if b then g1 else g2) else [Branch c' g1 g2])"
| "specialize_instruction c b (Emit x) = [Emit x]"

definition specialize_deltas :: "abstract \<Rightarrow> bool \<Rightarrow> ('k \<times> val) list \<Rightarrow> ('k \<times> val) list" where
  "specialize_deltas c b d = map (\<lambda>(k, v). (k, specialize_value c b v)) d"

fun specialize :: "abstract \<Rightarrow> bool \<Rightarrow> effects \<Rightarrow> effects" where
  "specialize c b (Effects r g bs ps os) =
     Effects (specialize_completion c b r) (concat (map (specialize_instruction c b) g))
       (specialize_deltas c b bs) (specialize_deltas c b ps) os"

text \<open>
  Modelled from the spec: the observable behaviour of effects (section 8: value, bindings,
  properties, instructions) on a pre-branch state: the completion, the instructions, and
  the bindings and properties that result from writing the deltas onto that state.
\<close>

fun observable ::
  "(string \<Rightarrow> val) \<Rightarrow> (nat \<times> string \<Rightarrow> val) \<Rightarrow> effects \<Rightarrow>
     result \<times> generator \<times> (string \<Rightarrow> val) \<times> (nat \<times> string \<Rightarrow> val)" where
  "observable original_binding original_property (Effects r g bs ps os) =
     (r, g, lookup_delta original_binding bs, lookup_delta original_property ps)"

text \<open>
  Two effects to join: the true side emits an instruction, assigns \<open>y\<close> and completes with
  1; the false side assigns \<open>z\<close> and throws.
\<close>

definition effects_true :: effects where
  "effects_true =
     Effects (Value (ConcreteValue (NumberValue 1))) [Emit ''a'']
       [(''y'', ConcreteValue (NumberValue 1))] [] []"

definition effects_false :: effects where
  "effects_false =
     Effects (Abrupt (AbruptCompletion Throw (ConcreteValue (StringValue ''e'')) None)) []
       [(''z'', ConcreteValue (NumberValue 2))] [((0, ''p''), ConcreteValue NullValue)] [0]"

definition effects_joined :: effects where
  "effects_joined =
     Effects
       (PossiblyNormalCompletion (ConcreteValue (NumberValue 1))
          (AbruptCompletion Throw (ConcreteValue (StringValue ''e'')) None, [],
           [(''z'', ConcreteValue (NumberValue 2))], [((0, ''p''), ConcreteValue NullValue)], [0])
          (Symbolic ''x'', True))
       [Branch (Symbolic ''x'') [Emit ''a''] []]
       [(''y'', conditional (Symbolic ''x'') (ConcreteValue (NumberValue 1)) intrinsics_undefined),
        (''z'', conditional (Symbolic ''x'') intrinsics_undefined (ConcreteValue (NumberValue 2)))]
       [((0, ''p''), conditional (Symbolic ''x'') intrinsics_undefined (ConcreteValue NullValue))]
       [0]"

section \<open>Example collaborators\<close>

text \<open>
  A small concrete instance of the collaborators, for evaluating the evaluator on
  concrete inputs. The world is the list of real bindings, newest first.
\<close>

datatype example_node =
    Literal concrete
  | Unknown string
  | EmptyBlock
  | ThrowStatement concrete
  | BreakStatement string
  | Assignment string concrete
  | Identifier string
  | Unreachable
  | Fault string

fun example_evaluate :: "example_node \<Rightarrow> bool \<Rightarrow> (bindings, result) action" where
  "example_evaluate (Literal k) strictCode s = (Inr (Value (ConcreteValue k)), s)"
| "example_evaluate (Unknown x) strictCode s = (Inr (Value (AbstractValue (Symbolic x))), s)"
| "example_evaluate EmptyBlock strictCode s = (Inr (Value intrinsics_empty), s)"
| "example_evaluate (ThrowStatement k) strictCode s =
     (Inl (Thrown (AbruptCompletion Throw (ConcreteValue k) None)), s)"
| "example_evaluate (BreakStatement l) strictCode s =
     (Inl (Thrown (AbruptCompletion Break intrinsics_empty (Some l))), s)"
| "example_evaluate (Assignment y k) strictCode s =
     (Inr (Value (ConcreteValue k)), s\<lparr>world := (y, ConcreteValue k) # world s\<rparr>)"
| "example_evaluate (Identifier x) strictCode s = (Inr (Reference x), s)"
| "example_evaluate Unreachable strictCode s = (Inl InfeasiblePathError, s)"
| "example_evaluate (Fault msg) strictCode s = (Inl (FatalError msg), s)"

definition example_evaluateCompletion :: "example_node \<Rightarrow> bool \<Rightarrow> (bindings, result) action" where
  "example_evaluateCompletion n strictCode s =
     (case example_evaluate n strictCode s of
        (Inl (Thrown a), s') \<Rightarrow> (Inr (Abrupt a), s')
      | other \<Rightarrow> other)"

definition example_evaluateNodeForEffects ::
  "example_node \<Rightarrow> bool \<Rightarrow> (bindings, effects) action" where
  "example_evaluateNodeForEffects n strictCode s =
     (case example_evaluateCompletion n strictCode (s\<lparr>world := []\<rparr>) of
        (Inl e, s') \<Rightarrow> (Inl e, s)
      | (Inr r, s') \<Rightarrow> (Inr (Effects r [] (world s') [] []), s))"

text \<open>
  The feasibility queries walk the stack (section 4.2): a condition assumed true cannot be
  not true; when no concretization is consistent with the stack, the query raises the
  infeasible-path signal instead of returning.
\<close>

definition consistent :: "(abstract \<times> bool) list \<Rightarrow> bool" where
  "consistent p = list_all (\<lambda>(a, b). (a, \<not> b) \<notin> set p) p"

definition example_query :: "bool \<Rightarrow> abstract \<Rightarrow> (bindings, bool) action" where
  "example_query truth a s =
     (if consistent (pathConditions s) then Inr ((a, truth) \<notin> set (pathConditions s))
      else Inl InfeasiblePathError, s)"

definition example_original :: "bindings \<Rightarrow> string \<Rightarrow> val" where
  "example_original w = lookup_delta (\<lambda>k. intrinsics_undefined) w"

definition example_collaborators :: "(example_node, bindings) collaborators" where
  "example_collaborators =
     \<lparr> env_evaluate = example_evaluate,
       env_evaluateCompletion = example_evaluateCompletion,
       GetConditionValue =
         (\<lambda>r s. (case r of Value v \<Rightarrow> Inr v | _ \<Rightarrow> Inl (FatalError ''GetValue''), s)),
       ToBoolean =
         (\<lambda>k. case k of BooleanValue b \<Rightarrow> b | NumberValue n \<Rightarrow> n \<noteq> 0
                | StringValue x \<Rightarrow> x \<noteq> [] | _ \<Rightarrow> False),
       mightNotBeTrue = example_query True,
       mightNotBeFalse = example_query False,
       evaluateNodeForEffects = example_evaluateNodeForEffects,
       construct_empty_effects = (\<lambda>s. Effects (Value intrinsics_empty) [] [] [] []),
       joinEffects =
         (\<lambda>cond e1 e2 s.
            (case join_effects cond (example_original (world s)) (\<lambda>k. intrinsics_undefined) e1 e2 of
               Some j \<Rightarrow> Inr j
             | None \<Rightarrow> Inl (FatalError ''join''), s)),
       composeWithSavedCompletion =
         (\<lambda>r s. (case r of PossiblyNormalCompletion v pending guard \<Rightarrow> Inr (Value v)
                  | _ \<Rightarrow> Inr r, s)),
       applyEffects =
         (\<lambda>e s. (Inr (), s\<lparr>world := bindingDeltas e @ world s\<rparr>)) \<rparr>"

definition example_realm :: "bindings realm" where
  "example_realm = \<lparr> pathConditions = [], world = [] \<rparr>"

section \<open>The second sandboxed call\<close>

text \<open>
  The thunk of line 118,
  \<^verbatim>\<open>alternate ? realm.evaluateNodeForEffects(alternate, strictCode, env) : construct_empty_effects(realm)\<close>,
  as an action on the realm, and the call it makes.
\<close>

definition alternate_effects ::
  "('n, 'w) collaborators \<Rightarrow> 'n option \<Rightarrow> bool \<Rightarrow> ('w, effects) action" where
  "alternate_effects c alt strictCode =
     (case alt of
        Some a \<Rightarrow> evaluateNodeForEffects c a strictCode
      | None \<Rightarrow> (\<lambda>s. (Inr (construct_empty_effects c s), s)))"

definition alternate_call :: "'n option \<Rightarrow> 'n call" where
  "alternate_call alt =
     (case alt of Some a \<Rightarrow> Call_evaluateNodeForEffects a | None \<Rightarrow> Call_construct_empty_effects)"

section \<open>Reading the outcome and the record of calls\<close>

text \<open>
  The last step the spec gives for a completion (section 4.1, step 2, and section 4.7,
  step 6): if it is Abrupt, raise it; else return its Value. It says nothing of a
  Reference or of a completion that is still possibly normal.
\<close>

fun raise_or_return :: "result \<Rightarrow> (thrown + val) option" where
  "raise_or_return (Abrupt a) = Some (Inl (Thrown a))"
| "raise_or_return (Value v) = Some (Inr v)"
| "raise_or_return (Reference x) = None"
| "raise_or_return (PossiblyNormalCompletion v pending guard) = None"

text \<open>The effects that \<open>applyEffects\<close> was called with, in order.\<close>

fun applied_effects :: "'n call list \<Rightarrow> effects list" where
  "applied_effects [] = []"
| "applied_effects (Call_applyEffects e # t) = e # applied_effects t"
| "applied_effects (ev # t) = applied_effects t"

text \<open>The results that \<open>UpdateEmpty\<close> was called with, in order.\<close>

fun normalized_results :: "'n call list \<Rightarrow> result list" where
  "normalized_results [] = []"
| "normalized_results (Call_UpdateEmpty r # t) = r # normalized_results t"
| "normalized_results (ev # t) = normalized_results t"



fun is_assumption_call :: "'n call \<Rightarrow> bool" where
  "is_assumption_call (Call_withCondition cond) = True"
| "is_assumption_call (Call_withInverseCondition cond) = True"
| "is_assumption_call ev = False"

text \<open>
  Scenario A: a concrete true condition, a consequent that completes with 5, no alternate.
  Scenario B: an unconstrained abstract condition, two branches that assign \<open>y\<close>.
  Scenario C: an abstract condition, a consequent that throws, an alternate that completes
  with 7. Scenario D: an abstract condition already assumed false on the path.
  Scenario E: the sandboxed consequent is infeasible.
\<close>

definition scenario_A :: "example_node if_statement" where
  "scenario_A =
     \<lparr> test = Literal (BooleanValue True), consequent = Literal (NumberValue 5),
       alternate = None \<rparr>"

definition scenario_B :: "example_node if_statement" where
  "scenario_B =
     \<lparr> test = Unknown ''x'', consequent = Assignment ''y'' (NumberValue 1),
       alternate = Some (Assignment ''y'' (NumberValue 2)) \<rparr>"

definition scenario_C :: "example_node if_statement" where
  "scenario_C =
     \<lparr> test = Unknown ''x'', consequent = ThrowStatement (NumberValue 1),
       alternate = Some (Literal (NumberValue 7)) \<rparr>"

definition scenario_D :: "example_node if_statement" where
  "scenario_D =
     \<lparr> test = Unknown ''x'', consequent = Literal (NumberValue 1),
       alternate = Some (Literal (NumberValue 2)) \<rparr>"

definition realm_D :: "bindings realm" where
  "realm_D = \<lparr> pathConditions = [(Symbolic ''x'', False)], world = [] \<rparr>"

definition scenario_E :: "example_node if_statement" where
  "scenario_E =
     \<lparr> test = Unknown ''x'', consequent = Unreachable,
       alternate = Some (Literal (NumberValue 7)) \<rparr>"

text \<open>An empty consequent and an alternate that throws, under an abstract condition.\<close>

definition scenario_empty_block :: "example_node if_statement" where
  "scenario_empty_block =
     \<lparr> test = Unknown ''x'', consequent = EmptyBlock,
       alternate = Some (ThrowStatement (NumberValue 1)) \<rparr>"

text \<open>A branch whose evaluation hands back a Reference, under a concrete condition.\<close>

definition scenario_reference :: "example_node if_statement" where
  "scenario_reference =
     \<lparr> test = Literal (BooleanValue True), consequent = Identifier ''y'', alternate = None \<rparr>"


text \<open>
  A \<open>composeWithSavedCompletion\<close> that, besides handing back the normal value, records
  the guard of the straddling completion as a path condition for the code that follows.
\<close>

definition guard_pushing_collaborators :: "(example_node, bindings) collaborators" where
  "guard_pushing_collaborators =
     example_collaborators
       \<lparr> composeWithSavedCompletion :=
           (\<lambda>r s. case r of
                    PossiblyNormalCompletion v pending guard \<Rightarrow>
                      (Inr (Value v), pushPathCondition (fst guard) (snd guard) s)
                  | _ \<Rightarrow> (Inr r, s)) \<rparr>"

section \<open>The assertions on a direct path\<close>

text \<open>
  What is to hold of a run of a direct path whose branch evaluation handed back \<open>r\<close> in
  the realm \<open>s\<close> after the calls \<open>calls\<close>, where \<open>line1\<close> is the source line of
  \<open>invariant(!(stmtCompletion instanceof Reference))\<close> and \<open>line2\<close> that of
  \<open>invariant(stmtCompletion instanceof Value)\<close>: a Reference fails the first assertion
  before any normalization; a completion that is still possibly normal passes it, is
  normalized and fails the second; a value or an abrupt completion passes both, is
  normalized and is returned or raised.
\<close>

definition reference_assertion ::
  "nat \<Rightarrow> nat \<Rightarrow> result \<Rightarrow> 'w realm \<Rightarrow> 'n call list \<Rightarrow>
     (thrown + val) \<times> 'w realm \<times> 'n call list \<Rightarrow> bool" where
  "reference_assertion line1 line2 r s calls run =
     (if is_Reference r then run = (Inl (InvariantViolation line1), s, calls)
      else if is_PossiblyNormal r then
        run = (Inl (InvariantViolation line2), s, calls @ [Call_UpdateEmpty r])
      else
        raise_or_return (UpdateEmpty r intrinsics_undefined) = Some (fst run) \<and>
        snd run = (s, calls @ [Call_UpdateEmpty r]))"

text \<open>
  An \<open>evaluateCompletion\<close> that hands back a completion that is still possibly normal, as
  a nested conditional that joined a normal branch with a throwing one would.
\<close>

definition straddling_completion :: result where
  "straddling_completion =
     PossiblyNormalCompletion (ConcreteValue (NumberValue 7))
       (AbruptCompletion Throw (ConcreteValue (NumberValue 1)) None, [], [], [], [])
       (Symbolic ''y'', False)"

definition straddling_collaborators :: "(example_node, bindings) collaborators" where
  "straddling_collaborators =
     example_collaborators
       \<lparr> env_evaluateCompletion := (\<lambda>n strictCode s. (Inr straddling_completion, s)) \<rparr>"

text \<open>
  Branches that break out of a labelled statement: under an abstract condition, and under
  a concrete true one. A realm whose path already assumes the condition true.
\<close>

definition scenario_break :: "example_node if_statement" where
  "scenario_break =
     \<lparr> test = Unknown ''x'', consequent = BreakStatement ''l'',
       alternate = Some (BreakStatement ''l'') \<rparr>"

definition scenario_concrete_break :: "example_node if_statement" where
  "scenario_concrete_break =
     \<lparr> test = Literal (BooleanValue True), consequent = BreakStatement ''l'',
       alternate = None \<rparr>"

definition realm_T :: "bindings realm" where
  "realm_T = \<lparr> pathConditions = [(Symbolic ''x'', True)], world = [] \<rparr>"

section \<open>The height of the path-condition stack\<close>

text \<open>A collaborator call, or a traced computation, that leaves the stack as high as it was.\<close>

definition balanced :: "('w, 'a) action \<Rightarrow> bool" where
  "balanced f = (\<forall>s. length (pathConditions (snd (f s))) = length (pathConditions s))"

definition preserves_stack :: "('n, 'w, 'a) traced \<Rightarrow> bool" where
  "preserves_stack m =
     (\<forall>s t. length (pathConditions (fst (snd (m (s, t))))) = length (pathConditions s))"

definition balanced_collaborators :: "('n, 'w) collaborators \<Rightarrow> bool" where
  "balanced_collaborators c =
     ((\<forall>n b. balanced (env_evaluate c n b)) \<and>
      (\<forall>n b. balanced (env_evaluateCompletion c n b)) \<and>
      (\<forall>r. balanced (GetConditionValue c r)) \<and>
      (\<forall>a. balanced (mightNotBeTrue c a)) \<and>
      (\<forall>a. balanced (mightNotBeFalse c a)) \<and>
      (\<forall>n b. balanced (evaluateNodeForEffects c n b)) \<and>
      (\<forall>a e1 e2. balanced (joinEffects c a e1 e2)) \<and>
      (\<forall>r. balanced (composeWithSavedCompletion c r)) \<and>
      (\<forall>e. balanced (applyEffects c e)))"

section \<open>Basic facts\<close>



lemma evaluate_concrete:
  assumes "env_evaluate c (test ast) strictCode s = (Inr exprRef, s1)"
    and "GetConditionValue c exprRef s1 = (Inr (ConcreteValue cv), s2)"
  shows "evaluate c ast strictCode (s, t) =
           and_then
             (if ToBoolean c cv then
                invoke (Call_evaluateCompletion (consequent ast))
                  (env_evaluateCompletion c (consequent ast) strictCode)
              else
                (case alternate ast of
                   Some a \<Rightarrow> invoke (Call_evaluateCompletion a) (env_evaluateCompletion c a strictCode)
                 | None \<Rightarrow> return_value (Value intrinsics_undefined)))
             (update_and_complete 45 50)
             (s2, t @ [Call_evaluate (test ast), Call_GetConditionValue])"
  using assms by (simp add: evaluate_def and_then_def invoke_def)

lemma evaluate_abstract:
  assumes "env_evaluate c (test ast) strictCode s = (Inr exprRef, s1)"
    and "GetConditionValue c exprRef s1 = (Inr (AbstractValue av), s2)"
    and "mightNotBeTrue c av s2 = (Inr mnbt, s3)"
  shows "evaluate c ast strictCode (s, t) =
          (if \<not> mnbt then
             and_then
               (invoke (Call_evaluate (consequent ast)) (env_evaluate c (consequent ast) strictCode))
               (update_and_complete 57 62)
               (s3, t @ [Call_evaluate (test ast), Call_GetConditionValue, Call_mightNotBeTrue])
           else
             and_then (invoke Call_mightNotBeFalse (mightNotBeFalse c av))
               (\<lambda>mnbf.
                  if \<not> mnbf then
                    and_then
                      (case alternate ast of
                         Some a \<Rightarrow> invoke (Call_evaluate a) (env_evaluate c a strictCode)
                       | None \<Rightarrow> return_value (Value intrinsics_undefined))
                      (update_and_complete 68 73)
                  else
                    evaluateWithAbstractConditional c av (consequent ast) (alternate ast) strictCode)
               (s3, t @ [Call_evaluate (test ast), Call_GetConditionValue, Call_mightNotBeTrue]))"
  using assms by (simp add: evaluate_def and_then_def invoke_def)

lemma first_sandbox:
  assumes "evaluateNodeForEffects c cons strictCode (pushPathCondition condValue True s) = (r, s1)"
  shows "withCondition condValue
           (invoke (Call_evaluateNodeForEffects cons) (evaluateNodeForEffects c cons strictCode)) (s, t) =
         (r, popPathCondition s1, t @ [Call_withCondition condValue, Call_evaluateNodeForEffects cons])"
  using assms by (simp add: withCondition_def withAssumption_def invoke_def)

lemma second_sandbox:
  assumes "alternate_effects c alt strictCode (pushPathCondition condValue False s) = (r, s2)"
  shows "withInverseCondition condValue
           (case alt of
              Some a \<Rightarrow> invoke (Call_evaluateNodeForEffects a) (evaluateNodeForEffects c a strictCode)
            | None \<Rightarrow> invoke Call_construct_empty_effects (\<lambda>s. (Inr (construct_empty_effects c s), s)))
           (s, t) =
         (r, popPathCondition s2, t @ [Call_withInverseCondition condValue, alternate_call alt])"
  using assms
  by (cases alt)
     (auto simp: withInverseCondition_def withAssumption_def invoke_def alternate_effects_def
        alternate_call_def)

lemma applied_effects_append:
  "applied_effects (xs @ ys) = applied_effects xs @ applied_effects ys"
  by (induction xs rule: applied_effects.induct) auto

lemma update_and_complete_calls:
  "update_and_complete l1 l2 r (s, t) = (out, s', tr) \<Longrightarrow>
   s' = s \<and> (tr = t \<or> tr = t @ [Call_UpdateEmpty r])"
  by (cases r)
     (auto simp: update_and_complete_def and_then_def invoke_def return_or_throw_def throw_def
        return_value_def split: result.splits if_splits)

lemma return_or_throw_calls:
  "return_or_throw l r (s, t) = (out, s', tr) \<Longrightarrow> s' = s \<and> tr = t"
  by (cases r) (auto simp: return_or_throw_def throw_def return_value_def)

lemma fork_applied:
  assumes "evaluateWithAbstractConditional c av cons alt strictCode (s, t) = (out, s', tr)"
  shows "applied_effects tr = applied_effects t \<or>
         (\<exists>j e1 e2 sj sj'. applied_effects tr = applied_effects t @ [j] \<and>
            Call_joinEffects av e1 e2 \<in> set tr \<and> joinEffects c av e1 e2 sj = (Inr j, sj'))"
  using assms
  unfolding evaluateWithAbstractConditional_def try_catch_def and_then_def invoke_def
    return_value_def throw_def 
    withCondition_def withInverseCondition_def withAssumption_def
  by (auto simp: applied_effects_append split: sum.splits  option.splits if_splits prod.splits
      dest!: update_and_complete_calls return_or_throw_calls) blast+

lemma evaluate_applied:
  assumes "evaluate c ast strictCode (s, t) = (out, s', tr)"
  shows "applied_effects tr = applied_effects t \<or>
         (\<exists>j av e1 e2 sj sj'. applied_effects tr = applied_effects t @ [j] \<and>
            Call_joinEffects av e1 e2 \<in> set tr \<and> joinEffects c av e1 e2 sj = (Inr j, sj'))"
  using assms
  unfolding evaluate_def and_then_def invoke_def return_value_def throw_def 
  by (auto simp: applied_effects_append split: sum.splits val.splits option.splits if_splits prod.splits
      dest!: update_and_complete_calls fork_applied)

section \<open>The paths of the fork\<close>

lemma update_and_complete_realm:
  "fst (snd (update_and_complete l1 l2 r (s, t))) = s"
  by (cases r)
     (auto simp: update_and_complete_def and_then_def invoke_def return_or_throw_def throw_def
        return_value_def split: result.splits)

lemma update_and_complete_trace:
  "snd (snd (update_and_complete l1 l2 r (s, t))) =
     t @ (if is_Reference r then [] else [Call_UpdateEmpty r])"
  by (cases r)
     (auto simp: update_and_complete_def and_then_def invoke_def return_or_throw_def throw_def
        return_value_def split: result.splits)

lemma fork_first_throws:
  assumes "evaluateNodeForEffects c cons strictCode (pushPathCondition av True s) = (Inl e, s1)"
  shows "evaluateWithAbstractConditional c av cons alt strictCode (s, t) =
           (if e = InfeasiblePathError then
              and_then
                (case alt of
                   Some a \<Rightarrow> invoke (Call_evaluateCompletion a) (env_evaluateCompletion c a strictCode)
                 | None \<Rightarrow> return_value (Value intrinsics_undefined))
                (update_and_complete 104 109)
                (popPathCondition s1, t @ [Call_withCondition av, Call_evaluateNodeForEffects cons])
            else
              (Inl e, popPathCondition s1,
               t @ [Call_withCondition av, Call_evaluateNodeForEffects cons]))"
  by (simp add: evaluateWithAbstractConditional_def try_catch_def throw_def
        first_sandbox [OF assms])

lemma fork_second_throws:
  assumes "evaluateNodeForEffects c cons strictCode (pushPathCondition av True s) = (Inr e1, s1)"
    and "alternate_effects c alt strictCode (pushPathCondition av False (popPathCondition s1)) =
           (Inl e, s2)"
  shows "evaluateWithAbstractConditional c av cons alt strictCode (s, t) =
           (if e = InfeasiblePathError then
              and_then (invoke (Call_evaluate cons) (env_evaluate c cons strictCode))
                (update_and_complete 123 128)
                (popPathCondition s2,
                 t @ [Call_withCondition av, Call_evaluateNodeForEffects cons,
                      Call_withInverseCondition av, alternate_call alt])
            else
              (Inl e, popPathCondition s2,
               t @ [Call_withCondition av, Call_evaluateNodeForEffects cons,
                    Call_withInverseCondition av, alternate_call alt]))"
  by (simp add: evaluateWithAbstractConditional_def try_catch_def throw_def
        first_sandbox [OF assms(1)] second_sandbox [OF assms(2)])

lemma fork_joins:
  assumes "evaluateNodeForEffects c cons strictCode (pushPathCondition av True s) = (Inr e1, s1)"
    and "alternate_effects c alt strictCode (pushPathCondition av False (popPathCondition s1)) =
           (Inr e2, s2)"
  shows "evaluateWithAbstractConditional c av cons alt strictCode (s, t) =
           and_then
             (invoke (Call_joinEffects av e1 e2) (joinEffects c av e1 e2))
             (\<lambda>joinedEffects.
                and_then
                  (if is_PossiblyNormal (completion joinedEffects) then
                     invoke (Call_composeWithSavedCompletion (completion joinedEffects))
                       (composeWithSavedCompletion c (completion joinedEffects))
                   else return_value (completion joinedEffects))
                  (\<lambda>composed.
                     and_then
                       (invoke (Call_applyEffects joinedEffects) (applyEffects c joinedEffects))
                       (\<lambda>u. return_or_throw 156 composed)))
             (popPathCondition s2,
              t @ [Call_withCondition av, Call_evaluateNodeForEffects cons,
                   Call_withInverseCondition av, alternate_call alt])"
  by (simp add: evaluateWithAbstractConditional_def try_catch_def throw_def
        first_sandbox [OF assms(1)] second_sandbox [OF assms(2)])


lemma direct_node:
  "and_then (invoke ev f) (update_and_complete l1 l2) (s, t) =
     (case f s of
        (Inl e, s') \<Rightarrow> (Inl e, s', t @ [ev])
      | (Inr r, s') \<Rightarrow> update_and_complete l1 l2 r (s', t @ [ev]))"
  by (auto simp: and_then_def invoke_def split: sum.splits prod.splits)

section \<open>Concrete conditions\<close>



section \<open>The fork\<close>



section \<open>The resolved paths\<close>


lemma evaluate_provably_true:
  assumes "env_evaluate c (test ast) strictCode s = (Inr exprRef, s1)"
    and "GetConditionValue c exprRef s1 = (Inr (AbstractValue av), s2)"
    and "mightNotBeTrue c av s2 = (Inr False, s3)"
  shows "evaluate c ast strictCode (s, t) =
           and_then
             (invoke (Call_evaluate (consequent ast)) (env_evaluate c (consequent ast) strictCode))
             (update_and_complete 57 62)
             (s3, t @ [Call_evaluate (test ast), Call_GetConditionValue, Call_mightNotBeTrue])"
  by (simp add: evaluate_abstract [OF assms])

lemma evaluate_might_be_false:
  assumes "env_evaluate c (test ast) strictCode s = (Inr exprRef, s1)"
    and "GetConditionValue c exprRef s1 = (Inr (AbstractValue av), s2)"
    and "mightNotBeTrue c av s2 = (Inr True, s3)"
    and "mightNotBeFalse c av s3 = (r, s4)"
  shows "evaluate c ast strictCode (s, t) =
           (case r of
              Inl e \<Rightarrow>
                (Inl e, s4,
                 t @ [Call_evaluate (test ast), Call_GetConditionValue, Call_mightNotBeTrue,
                      Call_mightNotBeFalse])
            | Inr mnbf \<Rightarrow>
                (if \<not> mnbf then
                   and_then
                     (case alternate ast of
                        Some a \<Rightarrow> invoke (Call_evaluate a) (env_evaluate c a strictCode)
                      | None \<Rightarrow> return_value (Value intrinsics_undefined))
                     (update_and_complete 68 73)
                 else
                   evaluateWithAbstractConditional c av (consequent ast) (alternate ast) strictCode)
                (s4,
                 t @ [Call_evaluate (test ast), Call_GetConditionValue, Call_mightNotBeTrue,
                      Call_mightNotBeFalse]))"
  using assms(4)
  by (simp add: evaluate_abstract [OF assms(1-3)] and_then_def invoke_def split: sum.splits)

section \<open>The assertions that end a direct path\<close>

lemma update_and_complete_reference_assertion:
  "reference_assertion l1 l2 r s t (update_and_complete l1 l2 r (s, t))"
  by (cases "(r, intrinsics_undefined)" rule: UpdateEmpty.cases)
     (auto simp: reference_assertion_def update_and_complete_def and_then_def invoke_def
        return_or_throw_def throw_def return_value_def)

text \<open>
  C10. On every direct path (concrete, provably true, provably false, and the two
  infeasibility fallbacks) the evaluator asserts that the result of the branch evaluation
  is not a Reference before it normalizes it. When the branch evaluation hands back a
  value or an abrupt completion, neither assertion of the path fails: the completion is
  normalized and then returned or raised. A Reference fails the first assertion and
  nothing is normalized. A completion that is still possibly normal passes the first
  assertion, is normalized, and fails the second,
  \<open>invariant(stmtCompletion instanceof Value)\<close>.
\<close>

theorem C10_assertions_on_direct_paths:
  "(\<forall>exprRef s1 cv s2 n s3.
      env_evaluate c (test ast) strictCode s = (Inr exprRef, s1) \<and>
      GetConditionValue c exprRef s1 = (Inr (ConcreteValue cv), s2) \<and>
      (if ToBoolean c cv then Some (consequent ast) else alternate ast) = Some n \<and>
      env_evaluateCompletion c n strictCode s2 = (Inr r, s3) \<longrightarrow>
      reference_assertion 45 50 r s3
        [Call_evaluate (test ast), Call_GetConditionValue, Call_evaluateCompletion n]
        (evaluate c ast strictCode (s, []))) \<and>
   (\<forall>exprRef s1 av s2 s3 s4.
      env_evaluate c (test ast) strictCode s = (Inr exprRef, s1) \<and>
      GetConditionValue c exprRef s1 = (Inr (AbstractValue av), s2) \<and>
      mightNotBeTrue c av s2 = (Inr False, s3) \<and>
      env_evaluate c (consequent ast) strictCode s3 = (Inr r, s4) \<longrightarrow>
      reference_assertion 57 62 r s4
        [Call_evaluate (test ast), Call_GetConditionValue, Call_mightNotBeTrue,
         Call_evaluate (consequent ast)]
        (evaluate c ast strictCode (s, []))) \<and>
   (\<forall>exprRef s1 av s2 s3 s4 a s5.
      env_evaluate c (test ast) strictCode s = (Inr exprRef, s1) \<and>
      GetConditionValue c exprRef s1 = (Inr (AbstractValue av), s2) \<and>
      mightNotBeTrue c av s2 = (Inr True, s3) \<and>
      mightNotBeFalse c av s3 = (Inr False, s4) \<and>
      alternate ast = Some a \<and> env_evaluate c a strictCode s4 = (Inr r, s5) \<longrightarrow>
      reference_assertion 68 73 r s5
        [Call_evaluate (test ast), Call_GetConditionValue, Call_mightNotBeTrue,
         Call_mightNotBeFalse, Call_evaluate a]
        (evaluate c ast strictCode (s, []))) \<and>
   (\<forall>av cons alt s1 a s2.
      evaluateNodeForEffects c cons strictCode (pushPathCondition av True s) =
        (Inl InfeasiblePathError, s1) \<and>
      alt = Some a \<and>
      env_evaluateCompletion c a strictCode (popPathCondition s1) = (Inr r, s2) \<longrightarrow>
      reference_assertion 104 109 r s2
        [Call_withCondition av, Call_evaluateNodeForEffects cons, Call_evaluateCompletion a]
        (evaluateWithAbstractConditional c av cons alt strictCode (s, []))) \<and>
   (\<forall>av cons alt e1 s1 s2 s3.
      evaluateNodeForEffects c cons strictCode (pushPathCondition av True s) = (Inr e1, s1) \<and>
      alternate_effects c alt strictCode (pushPathCondition av False (popPathCondition s1)) =
        (Inl InfeasiblePathError, s2) \<and>
      env_evaluate c cons strictCode (popPathCondition s2) = (Inr r, s3) \<longrightarrow>
      reference_assertion 123 128 r s3
        [Call_withCondition av, Call_evaluateNodeForEffects cons,
         Call_withInverseCondition av, alternate_call alt, Call_evaluate cons]
        (evaluateWithAbstractConditional c av cons alt strictCode (s, [])))"
proof (intro conjI allI impI)
  fix exprRef s1 cv s2 n s3
  assume h: "env_evaluate c (test ast) strictCode s = (Inr exprRef, s1) \<and>
      GetConditionValue c exprRef s1 = (Inr (ConcreteValue cv), s2) \<and>
      (if ToBoolean c cv then Some (consequent ast) else alternate ast) = Some n \<and>
      env_evaluateCompletion c n strictCode s2 = (Inr r, s3)"
  then have "evaluate c ast strictCode (s, []) =
      update_and_complete 45 50 r
        (s3, [Call_evaluate (test ast), Call_GetConditionValue, Call_evaluateCompletion n])"
    by (auto simp: evaluate_concrete [where t = "[]"] direct_node split: if_splits)
  then show "reference_assertion 45 50 r s3
        [Call_evaluate (test ast), Call_GetConditionValue, Call_evaluateCompletion n]
        (evaluate c ast strictCode (s, []))"
    by (simp add: update_and_complete_reference_assertion)
next
  fix exprRef s1 av s2 s3 s4
  assume h: "env_evaluate c (test ast) strictCode s = (Inr exprRef, s1) \<and>
      GetConditionValue c exprRef s1 = (Inr (AbstractValue av), s2) \<and>
      mightNotBeTrue c av s2 = (Inr False, s3) \<and>
      env_evaluate c (consequent ast) strictCode s3 = (Inr r, s4)"
  then have "evaluate c ast strictCode (s, []) =
      update_and_complete 57 62 r
        (s4, [Call_evaluate (test ast), Call_GetConditionValue, Call_mightNotBeTrue,
              Call_evaluate (consequent ast)])"
    by (simp add: evaluate_provably_true [where t = "[]"] direct_node)
  then show "reference_assertion 57 62 r s4
        [Call_evaluate (test ast), Call_GetConditionValue, Call_mightNotBeTrue,
         Call_evaluate (consequent ast)]
        (evaluate c ast strictCode (s, []))"
    by (simp add: update_and_complete_reference_assertion)
next
  fix exprRef s1 av s2 s3 s4 a s5
  assume h: "env_evaluate c (test ast) strictCode s = (Inr exprRef, s1) \<and>
      GetConditionValue c exprRef s1 = (Inr (AbstractValue av), s2) \<and>
      mightNotBeTrue c av s2 = (Inr True, s3) \<and>
      mightNotBeFalse c av s3 = (Inr False, s4) \<and>
      alternate ast = Some a \<and> env_evaluate c a strictCode s4 = (Inr r, s5)"
  then have "evaluate c ast strictCode (s, []) =
      update_and_complete 68 73 r
        (s5, [Call_evaluate (test ast), Call_GetConditionValue, Call_mightNotBeTrue,
              Call_mightNotBeFalse, Call_evaluate a])"
    by (simp add: evaluate_might_be_false [where t = "[]"] direct_node)
  then show "reference_assertion 68 73 r s5
        [Call_evaluate (test ast), Call_GetConditionValue, Call_mightNotBeTrue,
         Call_mightNotBeFalse, Call_evaluate a]
        (evaluate c ast strictCode (s, []))"
    by (simp add: update_and_complete_reference_assertion)
next
  fix av cons alt s1 a s2
  assume h: "evaluateNodeForEffects c cons strictCode (pushPathCondition av True s) =
        (Inl InfeasiblePathError, s1) \<and>
      alt = Some a \<and>
      env_evaluateCompletion c a strictCode (popPathCondition s1) = (Inr r, s2)"
  then have "evaluateWithAbstractConditional c av cons alt strictCode (s, []) =
      update_and_complete 104 109 r
        (s2, [Call_withCondition av, Call_evaluateNodeForEffects cons, Call_evaluateCompletion a])"
    by (simp add: fork_first_throws [where t = "[]"] direct_node)
  then show "reference_assertion 104 109 r s2
        [Call_withCondition av, Call_evaluateNodeForEffects cons, Call_evaluateCompletion a]
        (evaluateWithAbstractConditional c av cons alt strictCode (s, []))"
    by (simp add: update_and_complete_reference_assertion)
next
  fix av cons alt e1 s1 s2 s3
  assume h: "evaluateNodeForEffects c cons strictCode (pushPathCondition av True s) = (Inr e1, s1) \<and>
      alternate_effects c alt strictCode (pushPathCondition av False (popPathCondition s1)) =
        (Inl InfeasiblePathError, s2) \<and>
      env_evaluate c cons strictCode (popPathCondition s2) = (Inr r, s3)"
  then have "evaluateWithAbstractConditional c av cons alt strictCode (s, []) =
      update_and_complete 123 128 r
        (s3, [Call_withCondition av, Call_evaluateNodeForEffects cons,
              Call_withInverseCondition av, alternate_call alt, Call_evaluate cons])"
    by (simp add: fork_second_throws [where t = "[]"] direct_node)
  then show "reference_assertion 123 128 r s3
        [Call_withCondition av, Call_evaluateNodeForEffects cons,
         Call_withInverseCondition av, alternate_call alt, Call_evaluate cons]
        (evaluateWithAbstractConditional c av cons alt strictCode (s, []))"
    by (simp add: update_and_complete_reference_assertion)
qed

theorem C10_scenario_reference:
  "evaluate example_collaborators scenario_reference True (example_realm, []) =
     (Inl (InvariantViolation 45), example_realm,
      [Call_evaluate (Literal (BooleanValue True)), Call_GetConditionValue,
       Call_evaluateCompletion (Identifier ''y'')]) \<and>
   evaluate example_collaborators scenario_A True (example_realm, []) =
     (Inr (ConcreteValue (NumberValue 5)), example_realm,
      [Call_evaluate (Literal (BooleanValue True)), Call_GetConditionValue,
       Call_evaluateCompletion (Literal (NumberValue 5)),
       Call_UpdateEmpty (Value (ConcreteValue (NumberValue 5)))]) \<and>
   evaluate example_collaborators scenario_concrete_break True (example_realm, []) =
     (Inl (Thrown (AbruptCompletion Break intrinsics_undefined (Some ''l''))), example_realm,
      [Call_evaluate (Literal (BooleanValue True)), Call_GetConditionValue,
       Call_evaluateCompletion (BreakStatement ''l''),
       Call_UpdateEmpty (Abrupt (AbruptCompletion Break intrinsics_empty (Some ''l'')))])"
proof -
  let ?c = example_collaborators
  let ?true = "ConcreteValue (BooleanValue True)"
  have 1: "env_evaluate ?c (test scenario_reference) True example_realm =
             (Inr (Value ?true), example_realm) \<and>
           GetConditionValue ?c (Value ?true) example_realm = (Inr ?true, example_realm) \<and>
           (if ToBoolean ?c (BooleanValue True) then Some (consequent scenario_reference)
            else alternate scenario_reference) = Some (Identifier ''y'') \<and>
           env_evaluateCompletion ?c (Identifier ''y'') True example_realm =
             (Inr (Reference ''y''), example_realm)"
    by (simp add: example_collaborators_def scenario_reference_def example_evaluateCompletion_def)
  have 2: "env_evaluate ?c (test scenario_A) True example_realm =
             (Inr (Value ?true), example_realm) \<and>
           GetConditionValue ?c (Value ?true) example_realm = (Inr ?true, example_realm) \<and>
           (if ToBoolean ?c (BooleanValue True) then Some (consequent scenario_A)
            else alternate scenario_A) = Some (Literal (NumberValue 5)) \<and>
           env_evaluateCompletion ?c (Literal (NumberValue 5)) True example_realm =
             (Inr (Value (ConcreteValue (NumberValue 5))), example_realm)"
    by (simp add: example_collaborators_def scenario_A_def example_evaluateCompletion_def)
  have 3: "env_evaluate ?c (test scenario_concrete_break) True example_realm =
             (Inr (Value ?true), example_realm) \<and>
           GetConditionValue ?c (Value ?true) example_realm = (Inr ?true, example_realm) \<and>
           (if ToBoolean ?c (BooleanValue True) then Some (consequent scenario_concrete_break)
            else alternate scenario_concrete_break) = Some (BreakStatement ''l'') \<and>
           env_evaluateCompletion ?c (BreakStatement ''l'') True example_realm =
             (Inr (Abrupt (AbruptCompletion Break intrinsics_empty (Some ''l''))), example_realm)"
    by (simp add: example_collaborators_def scenario_concrete_break_def
          example_evaluateCompletion_def)
  note r = C10_assertions_on_direct_paths [THEN conjunct1, rule_format, OF 1]
  note v = C10_assertions_on_direct_paths [THEN conjunct1, rule_format, OF 2]
  note b = C10_assertions_on_direct_paths [THEN conjunct1, rule_format, OF 3]
  have eq: "run = (out, rest)" if "Some (fst run) = Some out" "snd run = rest"
    for run :: "(thrown + val) \<times> bindings realm \<times> example_node call list" and out rest
    using that by (cases run) simp
  from r have R: "evaluate ?c scenario_reference True (example_realm, []) =
     (Inl (InvariantViolation 45), example_realm,
      [Call_evaluate (test scenario_reference), Call_GetConditionValue,
       Call_evaluateCompletion (Identifier ''y'')])"
    by (simp add: reference_assertion_def)
  from v have V: "evaluate ?c scenario_A True (example_realm, []) =
     (Inr (ConcreteValue (NumberValue 5)), example_realm,
      [Call_evaluate (test scenario_A), Call_GetConditionValue,
       Call_evaluateCompletion (Literal (NumberValue 5)),
       Call_UpdateEmpty (Value (ConcreteValue (NumberValue 5)))])"
    by (intro eq) (simp_all add: reference_assertion_def intrinsics_empty_def)
  from b have B: "evaluate ?c scenario_concrete_break True (example_realm, []) =
     (Inl (Thrown (AbruptCompletion Break intrinsics_undefined (Some ''l''))), example_realm,
      [Call_evaluate (test scenario_concrete_break), Call_GetConditionValue,
       Call_evaluateCompletion (BreakStatement ''l''),
       Call_UpdateEmpty (Abrupt (AbruptCompletion Break intrinsics_empty (Some ''l'')))])"
    by (intro eq) (simp_all add: reference_assertion_def)
  show ?thesis
    using R V B by (simp add: scenario_reference_def scenario_A_def scenario_concrete_break_def)
qed

text \<open>
  That the branch evaluation hands back no Reference does not make the evaluator total on
  a direct path: a completion that is still possibly normal is not a Reference, and on
  the concrete path it fails the assertion on line 50.
\<close>

theorem C10_possibly_normal_fails_the_second_assertion:
  "\<not> is_Reference straddling_completion \<and>
   env_evaluateCompletion straddling_collaborators (consequent scenario_A) True example_realm =
     (Inr straddling_completion, example_realm) \<and>
   evaluate straddling_collaborators scenario_A True (example_realm, []) =
     (Inl (InvariantViolation 50), example_realm,
      [Call_evaluate (Literal (BooleanValue True)), Call_GetConditionValue,
       Call_evaluateCompletion (Literal (NumberValue 5)),
       Call_UpdateEmpty straddling_completion])"
  by code_simp

section \<open>The height of the stack is preserved\<close>

lemma preserves_stack_invoke: "balanced f \<Longrightarrow> preserves_stack (invoke ev f)"
  by (auto simp: balanced_def preserves_stack_def invoke_def split: prod.splits)
     (metis snd_conv)

lemma preserves_stack_return_value: "preserves_stack (return_value x)"
  by (simp add: preserves_stack_def return_value_def)

lemma preserves_stack_throw: "preserves_stack (throw e)"
  by (simp add: preserves_stack_def throw_def)

lemma preserves_stack_try_catch:
  assumes "preserves_stack m" and "\<And>e. preserves_stack (handler e)"
    and "\<And>x. preserves_stack (rest x)"
  shows "preserves_stack (try_catch m handler rest)"
  unfolding preserves_stack_def
proof (intro allI)
  fix s t
  obtain r s1 t1 where m: "m (s, t) = (r, s1, t1)"
    by (metis prod_cases3)
  from assms(1) m have 1: "length (pathConditions s1) = length (pathConditions s)"
    by (auto simp: preserves_stack_def dest!: spec [where x = s] spec [where x = t])
  show "length (pathConditions (fst (snd (try_catch m handler rest (s, t))))) =
          length (pathConditions s)"
  proof (cases r)
    case (Inl e)
    with m 1 assms(2) [of e] show ?thesis
      by (simp add: try_catch_def preserves_stack_def)
  next
    case (Inr x)
    with m 1 assms(3) [of x] show ?thesis
      by (simp add: try_catch_def preserves_stack_def)
  qed
qed

lemma and_then_try_catch: "and_then m f = try_catch m throw f"
  by (auto simp: and_then_def try_catch_def throw_def fun_eq_iff split: prod.splits sum.splits)

lemma preserves_stack_and_then:
  assumes "preserves_stack m" and "\<And>x. preserves_stack (f x)"
  shows "preserves_stack (and_then m f)"
  unfolding and_then_try_catch
  by (rule preserves_stack_try_catch [OF assms(1) preserves_stack_throw assms(2)])

lemma preserves_stack_return_or_throw: "preserves_stack (return_or_throw l r)"
  by (cases r) (simp_all add: return_or_throw_def preserves_stack_throw preserves_stack_return_value)

lemma preserves_stack_update_and_complete: "preserves_stack (update_and_complete l1 l2 r)"
  by (simp add: preserves_stack_def update_and_complete_realm)

lemma length_pop_push:
  assumes "length (pathConditions s') = length (pathConditions (pushPathCondition cond truth s))"
  shows "length (pathConditions (popPathCondition s')) = length (pathConditions s)"
  using assms by (simp add: pushPathCondition_def popPathCondition_def)

lemma preserves_stack_withAssumption:
  assumes "preserves_stack thunk"
  shows "preserves_stack (withAssumption cond truth thunk)"
  unfolding preserves_stack_def
proof (intro allI)
  fix s t
  obtain r s' t' where th: "thunk (pushPathCondition cond truth s, t) = (r, s', t')"
    by (metis prod_cases3)
  from assms have "length (pathConditions (fst (snd (thunk (pushPathCondition cond truth s, t))))) =
      length (pathConditions (pushPathCondition cond truth s))"
    unfolding preserves_stack_def by blast
  with th have "length (pathConditions s') =
      length (pathConditions (pushPathCondition cond truth s))"
    by simp
  then have "length (pathConditions (popPathCondition s')) = length (pathConditions s)"
    by (rule length_pop_push)
  with th show "length (pathConditions (fst (snd (withAssumption cond truth thunk (s, t))))) =
      length (pathConditions s)"
    by (simp add: withAssumption_def)
qed

lemma preserves_stack_withCondition:
  assumes "preserves_stack thunk"
  shows "preserves_stack (withCondition cond thunk)"
  using preserves_stack_withAssumption [OF assms, of cond True]
  by (simp add: preserves_stack_def withCondition_def)

lemma preserves_stack_withInverseCondition:
  assumes "preserves_stack thunk"
  shows "preserves_stack (withInverseCondition cond thunk)"
  using preserves_stack_withAssumption [OF assms, of cond False]
  by (simp add: preserves_stack_def withInverseCondition_def)

lemma balanced_construct_empty_effects:
  "balanced (\<lambda>s. (Inr (construct_empty_effects c s), s))"
  by (simp add: balanced_def)

lemma preserves_stack_fork:
  assumes "balanced_collaborators c"
  shows "preserves_stack (evaluateWithAbstractConditional c av cons alt strictCode)"
  unfolding evaluateWithAbstractConditional_def
  using assms
  by (intro preserves_stack_try_catch preserves_stack_and_then preserves_stack_withCondition
        preserves_stack_withInverseCondition)
     (auto simp: balanced_collaborators_def balanced_construct_empty_effects
        intro!: preserves_stack_invoke preserves_stack_and_then preserves_stack_throw
          preserves_stack_return_value preserves_stack_update_and_complete
          preserves_stack_return_or_throw
        split: option.splits)

lemma preserves_stack_evaluate:
  assumes "balanced_collaborators c"
  shows "preserves_stack (evaluate c ast strictCode)"
  unfolding evaluate_def
  using assms preserves_stack_fork [OF assms]
  by (intro preserves_stack_and_then)
     (auto simp: balanced_collaborators_def
        intro!: preserves_stack_invoke preserves_stack_and_then preserves_stack_throw
          preserves_stack_return_value preserves_stack_update_and_complete
        split: option.splits val.splits)

lemma example_evaluate_balanced:
  "length (pathConditions (snd (example_evaluate n b s))) = length (pathConditions s)"
  by (cases n) auto

lemma example_evaluateCompletion_balanced:
  "length (pathConditions (snd (example_evaluateCompletion n b s))) = length (pathConditions s)"
  using example_evaluate_balanced [of n b s]
  by (auto simp: example_evaluateCompletion_def split: prod.splits sum.splits thrown.splits)

lemma example_balanced: "balanced_collaborators example_collaborators"
  by (auto simp: balanced_collaborators_def balanced_def example_collaborators_def
        example_evaluate_balanced example_evaluateCompletion_balanced example_query_def
        example_evaluateNodeForEffects_def split: prod.splits sum.splits result.splits option.splits)

text \<open>
  C5. With \<open>Path.withCondition\<close> and \<open>Path.withInverseCondition\<close> popping what they
  pushed on every exit, and with every other collaborator the evaluator calls
  (\<open>env.evaluate\<close>, \<open>env.evaluateCompletion\<close>, \<open>GetConditionValue\<close>, the two feasibility
  queries, the sandbox, \<open>joinEffects\<close>, \<open>composeWithSavedCompletion\<close>, \<open>applyEffects\<close>)
  leaving the stack as high as it found it, the path-condition stack after a call of the
  evaluator is as high as before the call, whatever the outcome: a returned value, a
  thrown completion or failure, or a recovery from the infeasible-path signal.
\<close>

theorem C5_stack_height_preserved:
  assumes "balanced_collaborators c"
  shows "length (pathConditions (fst (snd (evaluate c ast strictCode (s, t))))) =
           length (pathConditions s)"
  using preserves_stack_evaluate [OF assms, of ast strictCode]
  by (simp add: preserves_stack_def)

theorem C5_scenario_E:
  "length (pathConditions
     (fst (snd (evaluate example_collaborators scenario_E True (example_realm, []))))) = 0 \<and>
   length (pathConditions
     (fst (snd (evaluate example_collaborators scenario_D True (realm_D, []))))) = 1 \<and>
   length (pathConditions
     (fst (snd (evaluate example_collaborators scenario_C True (example_realm, []))))) = 0"
  using C5_stack_height_preserved [OF example_balanced, of scenario_E True example_realm "[]"]
    C5_stack_height_preserved [OF example_balanced, of scenario_D True realm_D "[]"]
    C5_stack_height_preserved [OF example_balanced, of scenario_C True example_realm "[]"]
  by (simp add: realm_D_def example_realm_def)

text \<open>
  The contract of the two scoped assumptions alone does not give C5: the evaluator calls
  \<open>composeWithSavedCompletion\<close> outside any scope and pops nothing after it. With a
  collaborator that records the guard of the straddling completion as a path condition,
  scenario C leaves the stack one entry higher.
\<close>

theorem C5_compose_pushes_the_guard:
  "length (pathConditions (fst (snd
     (evaluate guard_pushing_collaborators scenario_C True (example_realm, []))))) = 1 \<and>
   length (pathConditions example_realm) = 0"
  by code_simp

section \<open>The infeasible-path signal\<close>





section \<open>Committing the effects\<close>

lemma applied_effects_direct:
  "applied_effects (snd (snd (and_then m (update_and_complete l1 l2) st))) =
     applied_effects (snd (snd (m st)))"
  by (cases "m st" rule: prod_cases3)
     (auto simp: and_then_def update_and_complete_trace applied_effects_append split: sum.splits)

lemma return_or_throw_state: "snd (return_or_throw l r st) = st"
  by (cases r) (simp_all add: return_or_throw_def throw_def return_value_def)

lemma applied_effects_alternate_call:
  "applied_effects (alternate_call alt # t) = applied_effects t"
  by (simp add: alternate_call_def split: option.splits)

text \<open>
  C6. In every execution of the evaluator \<open>applyEffects\<close> is called at most once, and
  what it is called with are the effects that \<open>joinEffects\<close> returned. It is never called
  on the concrete path, on the provably resolved paths and on the two infeasibility
  fallbacks, where the effects of the sandboxed branch are discarded; it is called exactly
  once, with the joined effects, when both sandboxed calls, the join and the composition
  return.
\<close>

theorem C6_applyEffects_at_most_once:
  "(\<forall>out s' tr.
      evaluate c ast strictCode (s, []) = (out, s', tr) \<longrightarrow>
      length (applied_effects tr) \<le> 1 \<and>
      (\<forall>j. j \<in> set (applied_effects tr) \<longrightarrow>
         (\<exists>av e1 e2 sj sj'.
            Call_joinEffects av e1 e2 \<in> set tr \<and> joinEffects c av e1 e2 sj = (Inr j, sj')))) \<and>
   (\<forall>exprRef s1 cv s2.
      env_evaluate c (test ast) strictCode s = (Inr exprRef, s1) \<and>
      GetConditionValue c exprRef s1 = (Inr (ConcreteValue cv), s2) \<longrightarrow>
      applied_effects (snd (snd (evaluate c ast strictCode (s, [])))) = []) \<and>
   (\<forall>exprRef s1 av s2 s3 s4.
      env_evaluate c (test ast) strictCode s = (Inr exprRef, s1) \<and>
      GetConditionValue c exprRef s1 = (Inr (AbstractValue av), s2) \<and>
      (mightNotBeTrue c av s2 = (Inr False, s3) \<or>
       mightNotBeTrue c av s2 = (Inr True, s3) \<and> mightNotBeFalse c av s3 = (Inr False, s4)) \<longrightarrow>
      applied_effects (snd (snd (evaluate c ast strictCode (s, [])))) = []) \<and>
   (\<forall>av cons alt s1 e1 s2.
      evaluateNodeForEffects c cons strictCode (pushPathCondition av True s) =
        (Inl InfeasiblePathError, s1) \<or>
      evaluateNodeForEffects c cons strictCode (pushPathCondition av True s) = (Inr e1, s1) \<and>
      alternate_effects c alt strictCode (pushPathCondition av False (popPathCondition s1)) =
        (Inl InfeasiblePathError, s2) \<longrightarrow>
      applied_effects
        (snd (snd (evaluateWithAbstractConditional c av cons alt strictCode (s, [])))) = []) \<and>
   (\<forall>av cons alt e1 s1 e2 s2 joinedEffects s3 composed s4.
      evaluateNodeForEffects c cons strictCode (pushPathCondition av True s) = (Inr e1, s1) \<and>
      alternate_effects c alt strictCode (pushPathCondition av False (popPathCondition s1)) =
        (Inr e2, s2) \<and>
      joinEffects c av e1 e2 (popPathCondition s2) = (Inr joinedEffects, s3) \<and>
      (if is_PossiblyNormal (completion joinedEffects)
       then composeWithSavedCompletion c (completion joinedEffects) s3
       else (Inr (completion joinedEffects), s3)) = (Inr composed, s4) \<longrightarrow>
      applied_effects
        (snd (snd (evaluateWithAbstractConditional c av cons alt strictCode (s, [])))) =
        [joinedEffects])"
proof (intro conjI allI impI)
  fix out s' tr
  assume run: "evaluate c ast strictCode (s, []) = (out, s', tr)"
  note evaluate_applied [OF run]
  then show "length (applied_effects tr) \<le> 1"
    by auto
next
  fix out s' tr j
  assume run: "evaluate c ast strictCode (s, []) = (out, s', tr)"
    and j: "j \<in> set (applied_effects tr)"
  from evaluate_applied [OF run] j
  show "\<exists>av e1 e2 sj sj'.
            Call_joinEffects av e1 e2 \<in> set tr \<and> joinEffects c av e1 e2 sj = (Inr j, sj')"
    by auto blast
next
  fix exprRef s1 cv s2
  assume "env_evaluate c (test ast) strictCode s = (Inr exprRef, s1) \<and>
      GetConditionValue c exprRef s1 = (Inr (ConcreteValue cv), s2)"
  then show "applied_effects (snd (snd (evaluate c ast strictCode (s, [])))) = []"
    by (auto simp: evaluate_concrete [where t = "[]"] applied_effects_direct invoke_def
          return_value_def split: prod.splits option.splits)
next
  fix exprRef s1 av s2 s3 s4
  assume h: "env_evaluate c (test ast) strictCode s = (Inr exprRef, s1) \<and>
      GetConditionValue c exprRef s1 = (Inr (AbstractValue av), s2) \<and>
      (mightNotBeTrue c av s2 = (Inr False, s3) \<or>
       mightNotBeTrue c av s2 = (Inr True, s3) \<and> mightNotBeFalse c av s3 = (Inr False, s4))"
  then show "applied_effects (snd (snd (evaluate c ast strictCode (s, [])))) = []"
    by (auto simp: evaluate_provably_true [where t = "[]"]
          evaluate_might_be_false [where t = "[]"] applied_effects_direct invoke_def
          return_value_def split: prod.splits option.splits)
next
  fix av cons alt s1 e1 s2
  assume h: "evaluateNodeForEffects c cons strictCode (pushPathCondition av True s) =
        (Inl InfeasiblePathError, s1) \<or>
      evaluateNodeForEffects c cons strictCode (pushPathCondition av True s) = (Inr e1, s1) \<and>
      alternate_effects c alt strictCode (pushPathCondition av False (popPathCondition s1)) =
        (Inl InfeasiblePathError, s2)"
  then show "applied_effects
        (snd (snd (evaluateWithAbstractConditional c av cons alt strictCode (s, [])))) = []"
    by (auto simp: fork_first_throws [where t = "[]"] fork_second_throws [where t = "[]"]
          applied_effects_direct applied_effects_alternate_call invoke_def return_value_def
          split: prod.splits option.splits)
next
  fix av cons alt e1 s1 e2 s2 joinedEffects s3 composed s4
  assume h: "evaluateNodeForEffects c cons strictCode (pushPathCondition av True s) = (Inr e1, s1) \<and>
      alternate_effects c alt strictCode (pushPathCondition av False (popPathCondition s1)) =
        (Inr e2, s2) \<and>
      joinEffects c av e1 e2 (popPathCondition s2) = (Inr joinedEffects, s3) \<and>
      (if is_PossiblyNormal (completion joinedEffects)
       then composeWithSavedCompletion c (completion joinedEffects) s3
       else (Inr (completion joinedEffects), s3)) = (Inr composed, s4)"
  then show "applied_effects
        (snd (snd (evaluateWithAbstractConditional c av cons alt strictCode (s, [])))) =
        [joinedEffects]"
    by (auto simp: fork_joins [where t = "[]"] and_then_def invoke_def return_value_def
          applied_effects_alternate_call applied_effects_append return_or_throw_state
          split: prod.splits sum.splits if_splits)
qed

theorem C6_scenario_B:
  "applied_effects
     (snd (snd (evaluateWithAbstractConditional example_collaborators (Symbolic ''x'')
        (Assignment ''y'' (NumberValue 1)) (Some (Assignment ''y'' (NumberValue 2))) True
        (example_realm, [])))) =
     [Effects
        (Value (conditional (Symbolic ''x'') (ConcreteValue (NumberValue 1))
                  (ConcreteValue (NumberValue 2))))
        [Branch (Symbolic ''x'') [] []]
        [(''y'', conditional (Symbolic ''x'') (ConcreteValue (NumberValue 1))
                   (ConcreteValue (NumberValue 2)))] [] []] \<and>
   applied_effects
     (snd (snd (evaluate example_collaborators scenario_A True (example_realm, [])))) = []"
proof -
  let ?c = example_collaborators
  let ?x = "Symbolic ''x''"
  let ?true = "ConcreteValue (BooleanValue True)"
  let ?e1 = "Effects (Value (ConcreteValue (NumberValue 1))) []
            [(''y'', ConcreteValue (NumberValue 1))] [] []"
  let ?e2 = "Effects (Value (ConcreteValue (NumberValue 2))) []
            [(''y'', ConcreteValue (NumberValue 2))] [] []"
  let ?v = "conditional ?x (ConcreteValue (NumberValue 1)) (ConcreteValue (NumberValue 2))"
  let ?j = "Effects (Value ?v) [Branch ?x [] []] [(''y'', ?v)] [] []"
  have pop: "popPathCondition (pushPathCondition ?x b example_realm) = example_realm" for b
    by (simp add: popPathCondition_def pushPathCondition_def example_realm_def)
  have fork:
    "evaluateNodeForEffects ?c (Assignment ''y'' (NumberValue 1)) True
       (pushPathCondition ?x True example_realm) =
       (Inr ?e1, pushPathCondition ?x True example_realm) \<and>
     alternate_effects ?c (Some (Assignment ''y'' (NumberValue 2))) True
       (pushPathCondition ?x False (popPathCondition (pushPathCondition ?x True example_realm))) =
       (Inr ?e2, pushPathCondition ?x False example_realm) \<and>
     joinEffects ?c ?x ?e1 ?e2 (popPathCondition (pushPathCondition ?x False example_realm)) =
       (Inr ?j, example_realm) \<and>
     (if is_PossiblyNormal (completion ?j)
      then composeWithSavedCompletion ?c (completion ?j) example_realm
      else (Inr (completion ?j), example_realm)) = (Inr (Value ?v), example_realm)"
    by (simp add: pop alternate_effects_def example_collaborators_def
          example_evaluateNodeForEffects_def example_evaluateCompletion_def join_effects_def
          join_deltas_def lookup_delta_def)
  note b = C6_applyEffects_at_most_once [where c = ?c and s = example_realm
      and strictCode = True, THEN conjunct2, THEN conjunct2, THEN conjunct2, THEN conjunct2,
      rule_format, OF fork]
  have 1: "env_evaluate ?c (test scenario_A) True example_realm =
             (Inr (Value ?true), example_realm) \<and>
           GetConditionValue ?c (Value ?true) example_realm = (Inr ?true, example_realm)"
    by (simp add: example_collaborators_def scenario_A_def)
  note a = C6_applyEffects_at_most_once [where c = ?c and ast = scenario_A
      and strictCode = True and s = example_realm, THEN conjunct2, THEN conjunct1, rule_format,
      OF 1]
  show ?thesis using a b by simp
qed

section \<open>Normalization on the fork path\<close>

text \<open>
  C9. The five direct paths normalize the completion that the branch evaluation hands back
  with \<open>UpdateEmpty\<close> before they return or raise it. The fork path, lines 134-157, does
  not: for an empty consequent and an alternate that throws, under an undecided abstract
  condition, the evaluator returns the "no value" marker and \<open>UpdateEmpty\<close> is never
  called, where normalization would give \<open>undefined\<close>.
\<close>

theorem C9_fork_result_is_not_normalized:
  "fst (evaluate example_collaborators scenario_empty_block True (example_realm, [])) =
     Inr intrinsics_empty \<and>
   normalized_results
     (snd (snd (evaluate example_collaborators scenario_empty_block True (example_realm, [])))) = [] \<and>
   UpdateEmpty (Value intrinsics_empty) intrinsics_undefined = Value intrinsics_undefined"
  by code_simp

section \<open>Normalization on the provably resolved paths\<close>

text \<open>
  C8. On the provably resolved paths the branch is evaluated through \<open>env.evaluate\<close>
  (lines 56 and 66), which raises an abrupt completion instead of handing it back, so
  the completion leaves the evaluator before \<open>UpdateEmpty\<close> is reached and the test on
  lines 59 and 70 never sees it. A branch that breaks out of a labelled statement is
  raised with the "no value" marker, on the provably true path and on the provably false
  one, where the concrete path, which evaluates through \<open>env.evaluateCompletion\<close>
  (lines 34 and 38), normalizes it and raises it with \<open>undefined\<close>.
\<close>

theorem C8_resolved_paths_skip_normalization:
  "evaluate example_collaborators scenario_break True (realm_T, []) =
     (Inl (Thrown (AbruptCompletion Break intrinsics_empty (Some ''l''))), realm_T,
      [Call_evaluate (Unknown ''x''), Call_GetConditionValue, Call_mightNotBeTrue,
       Call_evaluate (BreakStatement ''l'')]) \<and>
   evaluate example_collaborators scenario_break True (realm_D, []) =
     (Inl (Thrown (AbruptCompletion Break intrinsics_empty (Some ''l''))), realm_D,
      [Call_evaluate (Unknown ''x''), Call_GetConditionValue, Call_mightNotBeTrue,
       Call_mightNotBeFalse, Call_evaluate (BreakStatement ''l'')]) \<and>
   evaluate example_collaborators scenario_concrete_break True (example_realm, []) =
     (Inl (Thrown (AbruptCompletion Break intrinsics_undefined (Some ''l''))), example_realm,
      [Call_evaluate (Literal (BooleanValue True)), Call_GetConditionValue,
       Call_evaluateCompletion (BreakStatement ''l''),
       Call_UpdateEmpty (Abrupt (AbruptCompletion Break intrinsics_empty (Some ''l'')))])"
  by code_simp

section \<open>Normalization on the second fallback\<close>

text \<open>
  C3. When the second sandboxed call raises the infeasible-path signal the consequent is
  evaluated through \<open>env.evaluate\<close> (line 122), which raises an abrupt completion instead
  of handing it back, so the completion leaves the evaluator before \<open>UpdateEmpty\<close> is
  reached and the test on line 125 never sees it: a consequent that breaks out of a
  labelled statement is raised with the "no value" marker. The first fallback evaluates
  the alternate through \<open>env.evaluateCompletion\<close> (line 100), normalizes the same
  completion and raises it with \<open>undefined\<close>.
\<close>

theorem C3_second_fallback_skips_normalization:
  "evaluateWithAbstractConditional example_collaborators (Symbolic ''x'') (BreakStatement ''l'')
     (Some Unreachable) True (example_realm, []) =
     (Inl (Thrown (AbruptCompletion Break intrinsics_empty (Some ''l''))), example_realm,
      [Call_withCondition (Symbolic ''x''), Call_evaluateNodeForEffects (BreakStatement ''l''),
       Call_withInverseCondition (Symbolic ''x''), Call_evaluateNodeForEffects Unreachable,
       Call_evaluate (BreakStatement ''l'')]) \<and>
   evaluateWithAbstractConditional example_collaborators (Symbolic ''x'') Unreachable
     (Some (BreakStatement ''l'')) True (example_realm, []) =
     (Inl (Thrown (AbruptCompletion Break intrinsics_undefined (Some ''l''))), example_realm,
      [Call_withCondition (Symbolic ''x''), Call_evaluateNodeForEffects Unreachable,
       Call_evaluateCompletion (BreakStatement ''l''),
       Call_UpdateEmpty (Abrupt (AbruptCompletion Break intrinsics_empty (Some ''l'')))])"
  by code_simp

section \<open>The join correctness law\<close>

lemma map_of_tabulate:
  "map_of (map (\<lambda>k. (k, f k)) ks) k = (if k \<in> set ks then Some (f k) else None)"
  by (induction ks) auto

lemma specialize_join_deltas:
  "specialize_deltas c b (join_deltas c original d1 d2) =
     map (\<lambda>k. (k, if b then lookup_delta original d1 k else lookup_delta original d2 k))
       (remdups (map fst d1 @ map fst d2))"
  by (simp add: specialize_deltas_def join_deltas_def conditional_def specialize_value_def)

lemma lookup_delta_untouched:
  "k \<notin> fst ` set d \<Longrightarrow> lookup_delta original d k = original k"
  by (simp add: lookup_delta_def map_of_eq_None_iff [THEN iffD2])

lemma lookup_specialized_join:
  "lookup_delta original (specialize_deltas c b (join_deltas c original d1 d2)) =
     (if b then lookup_delta original d1 else lookup_delta original d2)"
proof
  fix k
  show "lookup_delta original (specialize_deltas c b (join_deltas c original d1 d2)) k =
          (if b then lookup_delta original d1 else lookup_delta original d2) k"
  proof (cases "k \<in> fst ` set d1 \<union> fst ` set d2")
    case True
    then show ?thesis
      by (simp add: specialize_join_deltas lookup_delta_def [of original "map f ks" for f ks]
            map_of_tabulate)
  next
    case False
    then show ?thesis
      by (simp add: specialize_join_deltas lookup_delta_def [of original "map f ks" for f ks]
            map_of_tabulate lookup_delta_untouched)
  qed
qed

lemma specialize_join_completions:
  assumes "join_completions c e1 e2 = Some r"
  shows "specialize_completion c b r = (if b then completion e1 else completion e2)"
  using assms
  by (induction c e1 e2 rule: join_completions.induct)
     (auto simp: conditional_def specialize_value_def split: if_splits)

text \<open>
  C2. Whenever the join of the effects captured under the true and the false assumption
  produces effects, specializing them to condition = true reproduces the observable
  behaviour of the true-side effects (completion, residual instructions, and the bindings
  and properties that result from writing the deltas onto the pre-branch state), and
  specializing them to condition = false reproduces that of the false-side effects. The
  join produces effects for two values, for a value and an abrupt completion, and for two
  abrupt completions of the same kind and target.
\<close>

theorem C2_join_correctness_law:
  assumes "join_effects c original_binding original_property effectsTrue effectsFalse =
             Some joined"
  shows "observable original_binding original_property (specialize c True joined) =
           observable original_binding original_property effectsTrue \<and>
         observable original_binding original_property (specialize c False joined) =
           observable original_binding original_property effectsFalse"
proof -
  obtain r where r: "join_completions c effectsTrue effectsFalse = Some r"
    and j: "joined =
      Effects r [Branch c (residualInstructions effectsTrue) (residualInstructions effectsFalse)]
        (join_deltas c original_binding (bindingDeltas effectsTrue) (bindingDeltas effectsFalse))
        (join_deltas c original_property (propertyDeltas effectsTrue)
           (propertyDeltas effectsFalse))
        (remdups (createdObjects effectsTrue @ createdObjects effectsFalse))"
    using assms by (auto simp: join_effects_def)
  show ?thesis
    by (cases effectsTrue; cases effectsFalse)
       (simp add: j specialize_join_completions [OF r] lookup_specialized_join)
qed

theorem C2_join_of_normal_and_throw:
  "join_effects (Symbolic ''x'') (\<lambda>k. intrinsics_undefined) (\<lambda>k. intrinsics_undefined)
     effects_true effects_false = Some effects_joined \<and>
   observable (\<lambda>k. intrinsics_undefined) (\<lambda>k. intrinsics_undefined)
     (specialize (Symbolic ''x'') True effects_joined) =
     observable (\<lambda>k. intrinsics_undefined) (\<lambda>k. intrinsics_undefined) effects_true \<and>
   observable (\<lambda>k. intrinsics_undefined) (\<lambda>k. intrinsics_undefined)
     (specialize (Symbolic ''x'') False effects_joined) =
     observable (\<lambda>k. intrinsics_undefined) (\<lambda>k. intrinsics_undefined) effects_false"
proof -
  have j: "join_effects (Symbolic ''x'') (\<lambda>k. intrinsics_undefined) (\<lambda>k. intrinsics_undefined)
     effects_true effects_false = Some effects_joined"
    by (simp add: join_effects_def join_deltas_def lookup_delta_def effects_true_def
          effects_false_def effects_joined_def)
  show ?thesis
    using C2_join_correctness_law [OF j] j by simp
qed

end
